theory Spec2Isabelle
  imports Main "HOL-Library.Word"
begin

unbundle bit_operations_syntax

section \<open>Data model of the file-sharing server\<close>

text \<open>
  The multiplexing servers (the \<open>poll\<close> variant and the \<open>epoll\<close> variant) share the
  header \<open>server-common-multiplexing.h\<close>: the server descriptor, the per-connection record
  and the two protocol steps. \<open>size_t\<close> is the 64-bit unsigned integer of the target
  (x86-64 Linux), so counters and offsets are \<open>64 word\<close> and wrap around as in C.
\<close>

type_synonym byte = "8 word"
type_synonym size_t = "64 word"

datatype TRANSFER_STATE =
    CONNECTION_EMPTY
  | SEND_FILE_SIZE
  | SEND_DATA_BLOCK
  | TRANSFER_FINISHED

record FILESHARE_SERVER =
  src_file_fd :: int
  src_file_size :: size_t
  listen_sock_fd :: int

record FILESHARE_CONNECTION =
  client_sock_fd :: int
  src_file_offset :: size_t
  state :: TRANSFER_STATE

definition TRANSFER_BLOCK_SIZE :: nat where
  "TRANSFER_BLOCK_SIZE = 1024"

definition EXIT_SUCCESS :: int where
  "EXIT_SUCCESS = 0"

definition EXIT_FAILURE :: int where
  "EXIT_FAILURE = 1"

definition EAGAIN :: int where
  "EAGAIN = 11"

section \<open>The process and the system calls it makes\<close>

text \<open>
  Everything the C code touches outside its own variables is a field of the process
  record: \<open>errno\<close>, the two output streams, the flag written by the SIGINT handler, the
  content of the file behind \<open>src_file_fd\<close> (it does not change during a run), the bytes
  each successful \<open>write\<close> handed to a socket, and the descriptors closed so far.
\<close>

record process =
  errno :: int
  stdout :: "string list"
  stderr :: "string list"
  received_sigint :: bool
  src_file :: "byte list"
  sock_log :: "(int \<times> byte list) list"
  closed_fds :: "int list"

text \<open>
  A function that may call \<open>exit\<close> returns an outcome: the value it returns, or the exit
  status with the process as it was left, or \<open>OutOfBounds\<close> where the C code would index
  an array outside its allocation.
\<close>

datatype 'a outcome = Done 'a | Exited int process | OutOfBounds

text \<open>
  What the kernel answers is an input of the model. \<open>write\<close> either accepts the first
  \<open>n\<close> bytes of the buffer (and leaves \<open>errno\<close> alone) or fails with \<open>-1\<close> and sets
  \<open>errno\<close>; the result is stored in a \<open>size_t\<close>, so \<open>-1\<close> is \<open>2^64 - 1\<close>.
\<close>

datatype write_outcome = WriteOk nat | WriteErr int

definition sys_write :: "write_outcome \<Rightarrow> int \<Rightarrow> byte list \<Rightarrow> process \<Rightarrow> size_t \<times> process" where
  "sys_write r fd buf p =
     (case r of
        WriteOk n \<Rightarrow> (of_nat (length (take n buf)), p\<lparr>sock_log := sock_log p @ [(fd, take n buf)]\<rparr>)
      | WriteErr e \<Rightarrow> (- 1, p\<lparr>errno := e\<rparr>))"

text \<open>
  \<open>pread\<close> on the source file, a regular file that nobody changes: it returns the bytes
  from the offset up to the count or the end of the file, or fails with \<open>-1\<close>.
\<close>

datatype pread_outcome = ReadOk | ReadErr int

definition sys_pread :: "pread_outcome \<Rightarrow> nat \<Rightarrow> size_t \<Rightarrow> process \<Rightarrow> size_t \<times> byte list \<times> process" where
  "sys_pread r count off p =
     (case r of
        ReadOk \<Rightarrow> (let data = take count (drop (unat off) (src_file p))
                   in (of_nat (length data), data, p))
      | ReadErr e \<Rightarrow> (- 1, [], p\<lparr>errno := e\<rparr>))"

text \<open>
  \<open>uint64_t\<close> in memory on the little-endian host, and \<open>htobe64\<close>, which reverses the
  bytes there.
\<close>

definition mem_bytes :: "64 word \<Rightarrow> byte list" where
  "mem_bytes w = map (\<lambda>i. ucast (drop_bit (8 * i) w)) [0..<8]"

definition mem_value :: "byte list \<Rightarrow> 64 word" where
  "mem_value bs = foldr (\<lambda>b acc. ucast b OR push_bit 8 acc) bs 0"

definition htobe64 :: "64 word \<Rightarrow> 64 word" where
  "htobe64 w = mem_value (rev (mem_bytes w))"

section \<open>One step of the transfer protocol\<close>

definition server_send_file_size ::
  "FILESHARE_SERVER \<Rightarrow> write_outcome \<Rightarrow> FILESHARE_CONNECTION \<times> process
     \<Rightarrow> bool \<times> FILESHARE_CONNECTION \<times> process" where
  "server_send_file_size server wr cp =
     (let (conn, p) = cp;
          file_size = htobe64 (src_file_size server);
          (bytes_written, p1) = sys_write wr (client_sock_fd conn) (mem_bytes file_size) p
      in if bytes_written \<noteq> 8 then
           (if errno p1 = EAGAIN then (True, conn, p1)
            else (False, conn\<lparr>state := TRANSFER_FINISHED\<rparr>,
                  p1\<lparr>stderr := stderr p1 @ [''Unable to send file size to client\<newline>'']\<rparr>))
         else (True, conn\<lparr>src_file_offset := 0, state := SEND_DATA_BLOCK\<rparr>, p1))"

definition server_send_file_block ::
  "FILESHARE_SERVER \<Rightarrow> pread_outcome \<Rightarrow> write_outcome \<Rightarrow> FILESHARE_CONNECTION \<times> process
     \<Rightarrow> bool \<times> FILESHARE_CONNECTION \<times> process" where
  "server_send_file_block server rd wr cp =
     (let (conn, p) = cp;
          (bytes_read, file_block, p1) = sys_pread rd TRANSFER_BLOCK_SIZE (src_file_offset conn) p
      in if bytes_read = - 1 \<or> (bytes_read = 0 \<and> src_file_offset conn \<noteq> src_file_size server) then
           (False, conn\<lparr>state := TRANSFER_FINISHED\<rparr>,
            p1\<lparr>stderr := stderr p1 @ [''Unable to read data from file\<newline>'']\<rparr>)
         else
           (let (bytes_written, p2) = sys_write wr (client_sock_fd conn) file_block p1
            in if bytes_written = - 1 \<or> bytes_written \<noteq> bytes_read then
                 (False, conn\<lparr>state := TRANSFER_FINISHED\<rparr>,
                  p2\<lparr>stderr := stderr p2 @ [''Unable to send data block to client\<newline>'']\<rparr>)
               else
                 (let conn1 = conn\<lparr>src_file_offset := src_file_offset conn + bytes_written\<rparr>
                  in if src_file_offset conn1 = src_file_size server then
                       (False, conn1\<lparr>state := TRANSFER_FINISHED\<rparr>, p2)
                     else (True, conn1, p2))))"

text \<open>
  The \<open>switch\<close> of the event loop on a writable connection: which step runs in which
  state. An empty slot is a fatal inconsistency; a finished one leaves \<open>success\<close> false.
\<close>

definition advance ::
  "FILESHARE_SERVER \<Rightarrow> pread_outcome \<Rightarrow> write_outcome \<Rightarrow> FILESHARE_CONNECTION \<times> process
     \<Rightarrow> (bool \<times> FILESHARE_CONNECTION \<times> process) outcome" where
  "advance server rd wr cp =
     (case state (fst cp) of
        CONNECTION_EMPTY \<Rightarrow>
          Exited EXIT_FAILURE ((snd cp)\<lparr>stderr := stderr (snd cp) @ [''Unexpected state!\<newline>'']\<rparr>)
      | SEND_FILE_SIZE \<Rightarrow> Done (server_send_file_size server wr cp)
      | SEND_DATA_BLOCK \<Rightarrow> Done (server_send_file_block server rd wr cp)
      | TRANSFER_FINISHED \<Rightarrow> Done (False, fst cp, snd cp))"

section \<open>One connection from admission to the end of its transfer\<close>

text \<open>
  The event loop calls \<open>advance\<close> on a connection once per writability event, with
  whatever the kernel answers to that event's \<open>pread\<close> and \<open>write\<close>, and goes on as long
  as the step returns true; a false result makes the loop close the socket.
  \<open>serve_conn\<close> is that sequence for one connection.
\<close>

type_synonym io_outcome = "pread_outcome \<times> write_outcome"

fun serve_conn ::
  "FILESHARE_SERVER \<Rightarrow> io_outcome list \<Rightarrow> FILESHARE_CONNECTION \<times> process
     \<Rightarrow> (FILESHARE_CONNECTION \<times> process) outcome" where
  "serve_conn server [] cp = Done cp"
| "serve_conn server ((rd, wr) # ios) cp =
     (case advance server rd wr cp of
        Done (success, conn', p') \<Rightarrow>
          if success then serve_conn server ios (conn', p') else Done (conn', p')
      | Exited st p' \<Rightarrow> Exited st p'
      | OutOfBounds \<Rightarrow> OutOfBounds)"

text \<open>
  The offsets a connection is seen at while it is sending data: the offset with which it
  enters each \<open>SEND_DATA_BLOCK\<close> advance, that is the offset left by the previous
  successful advance.
\<close>

fun offsets_observed ::
  "FILESHARE_SERVER \<Rightarrow> io_outcome list \<Rightarrow> FILESHARE_CONNECTION \<times> process \<Rightarrow> size_t list" where
  "offsets_observed server [] cp =
     (if state (fst cp) = SEND_DATA_BLOCK then [src_file_offset (fst cp)] else [])"
| "offsets_observed server ((rd, wr) # ios) cp =
     (if state (fst cp) = SEND_DATA_BLOCK then [src_file_offset (fst cp)] else []) @
     (case advance server rd wr cp of
        Done (success, conn', p') \<Rightarrow>
          if success then offsets_observed server ios (conn', p') else []
      | Exited st p' \<Rightarrow> []
      | OutOfBounds \<Rightarrow> [])"



section \<open>The client\<close>

text \<open>
  The receiving side of the protocol. The connection delivers the bytes the server wrote,
  in order, cut into segments at the network's discretion; the server closes it after the
  last byte. \<open>recv\<close> with \<open>MSG_WAITALL\<close> gathers the requested count across segments (less
  only at the end of the stream); a plain \<open>recv\<close> returns what the first segment holds, up
  to the count, and 0 at the end of the stream.
\<close>

record FILESHARE_CLIENT =
  server_conn_fd :: int
  dst_file_fd :: int
  dst_file_size :: size_t
  dst_file_offset :: size_t














section \<open>Well-behaved environments and a running example\<close>

text \<open>
  An environment in which nothing fails: every \<open>pread\<close> succeeds and every \<open>write\<close>
  takes up to a whole block, so each buffer the server hands over is accepted in full.
\<close>

definition clean_io :: io_outcome where
  "clean_io = (ReadOk, WriteOk TRANSFER_BLOCK_SIZE)"


text \<open>A server with a source file of 1030 bytes, and a connection just admitted.\<close>

definition example_server :: FILESHARE_SERVER where
  "example_server = \<lparr>src_file_fd = 3, src_file_size = 1030, listen_sock_fd = 4\<rparr>"

definition example_process :: process where
  "example_process = \<lparr>errno = 0, stdout = [], stderr = [], received_sigint = False,
     src_file = replicate 1030 7, sock_log = [], closed_fds = []\<rparr>"

definition example_conn :: FILESHARE_CONNECTION where
  "example_conn = \<lparr>client_sock_fd = 5, src_file_offset = 0, state = SEND_FILE_SIZE\<rparr>"

section \<open>Sockets, signals and the files of the server\<close>

text \<open>
  A system call that returns 0 or \<open>-1\<close> either succeeds or fails with an error number.
\<close>

datatype sys_result = Success | Failure int

datatype fd_result = NewFd int | NoFd int

definition EBADF :: int where
  "EBADF = 9"

definition ENOENT :: int where
  "ENOENT = 2"

definition EEXIST :: int where
  "EEXIST = 17"

text \<open>
  The flag of the SIGINT handler. The handler may run between any two steps of the
  program; the model lets a signal arrive before the check at the head of an iteration and
  while the loop waits for events.
\<close>

definition program_in_shutdown :: "process \<Rightarrow> bool" where
  "program_in_shutdown p = received_sigint p"

definition sigint_handler :: "process \<Rightarrow> process" where
  "sigint_handler p = p\<lparr>received_sigint := True\<rparr>"

definition deliver_sigint :: "bool \<Rightarrow> process \<Rightarrow> process" where
  "deliver_sigint arrived p = (if arrived then sigint_handler p else p)"

text \<open>
  \<open>init_shutdown_control\<close> installs the handler; the flag starts false. Messages are
  recorded without their formatted arguments.
\<close>

definition init_shutdown_control :: "sys_result \<Rightarrow> sys_result \<Rightarrow> process \<Rightarrow> process outcome" where
  "init_shutdown_control sigfillset_res sigaction_res p =
     (case sigfillset_res of
        Failure e \<Rightarrow> Exited EXIT_FAILURE
          (p\<lparr>errno := e, stderr := stderr p @ [''[init_shutdown_control] Unable to set signal mask\<newline>'']\<rparr>)
      | Success \<Rightarrow>
          (case sigaction_res of
             Failure e \<Rightarrow> Exited EXIT_FAILURE
               (p\<lparr>errno := e, stderr := stderr p @ [''[init_shutdown_control] Unable to set SIGINT handler\<newline>'']\<rparr>)
           | Success \<Rightarrow> Done p))"

definition server_open_src_file ::
  "fd_result \<Rightarrow> sys_result \<Rightarrow> FILESHARE_SERVER \<Rightarrow> process \<Rightarrow> (FILESHARE_SERVER \<times> process) outcome" where
  "server_open_src_file open_res fstat_res server p =
     (case open_res of
        NoFd e \<Rightarrow> Exited EXIT_FAILURE
          (p\<lparr>errno := e, stderr := stderr p @ [''Unable to open source file'']\<rparr>)
      | NewFd f \<Rightarrow>
          (case fstat_res of
             Failure e \<Rightarrow> Exited EXIT_FAILURE
               (p\<lparr>errno := e, stderr := stderr p @ [''Unable to determine source file size'']\<rparr>)
           | Success \<Rightarrow>
               Done (server\<lparr>src_file_fd := f, src_file_size := of_nat (length (src_file p))\<rparr>, p)))"

definition server_close_src_file :: "sys_result \<Rightarrow> FILESHARE_SERVER \<Rightarrow> process \<Rightarrow> process outcome" where
  "server_close_src_file close_res server p =
     (case close_res of
        Failure e \<Rightarrow> Exited EXIT_FAILURE (p\<lparr>errno := e, stderr := stderr p @ [''Unable to close file'']\<rparr>)
      | Success \<Rightarrow> Done (p\<lparr>closed_fds := closed_fds p @ [src_file_fd server]\<rparr>))"

record listen_env =
  socket_res :: fd_result
  reuseaddr_res :: sys_result
  bind_res :: sys_result
  listen_res :: sys_result

definition server_init_listen_socket ::
  "listen_env \<Rightarrow> FILESHARE_SERVER \<Rightarrow> process \<Rightarrow> (FILESHARE_SERVER \<times> process) outcome" where
  "server_init_listen_socket env server p =
     (case socket_res env of
        NoFd e \<Rightarrow> Exited EXIT_FAILURE
          (p\<lparr>errno := e, stderr := stderr p @ [''[server_init_listen_socket] Unable to create socket!\<newline>'']\<rparr>)
      | NewFd f \<Rightarrow>
          (case reuseaddr_res env of
             Failure e \<Rightarrow> Exited EXIT_FAILURE
               (p\<lparr>errno := e, stderr := stderr p @
                  [''[server_init_listen_socket] Unable to set SO_REUSEADDR socket option\<newline>'']\<rparr>)
           | Success \<Rightarrow>
               (case bind_res env of
                  Failure e \<Rightarrow> Exited EXIT_FAILURE
                    (p\<lparr>errno := e, stderr := stderr p @ [''[server_init_listen_socket] Unable to bind\<newline>'']\<rparr>)
                | Success \<Rightarrow>
                    (case listen_res env of
                       Failure e \<Rightarrow> Exited EXIT_FAILURE
                         (p\<lparr>errno := e, stderr := stderr p @
                            [''[server_init_listen_socket] Unable to listen() on a socket\<newline>'']\<rparr>)
                     | Success \<Rightarrow> Done (server\<lparr>listen_sock_fd := f\<rparr>, p)))))"

definition server_close_listen_socket :: "sys_result \<Rightarrow> FILESHARE_SERVER \<Rightarrow> process \<Rightarrow> process outcome" where
  "server_close_listen_socket close_res server p =
     (case close_res of
        Failure e \<Rightarrow> Exited EXIT_FAILURE
          (p\<lparr>errno := e, stderr := stderr p @ [''[server_close_listen_socket] Unable to close() listen-socket\<newline>'']\<rparr>)
      | Success \<Rightarrow> Done (p\<lparr>closed_fds := closed_fds p @ [listen_sock_fd server]\<rparr>))"

text \<open>
  Accepting a connection. When \<open>accept\<close> fails while the program is in shutdown the
  function returns false with \<open>-1\<close> stored as the descriptor; otherwise a failure of
  \<open>accept\<close> or of one of the three \<open>setsockopt\<close> calls is fatal.
\<close>

record accept_env =
  accept_res :: fd_result
  linger_res :: sys_result
  nodelay_res :: sys_result
  cork_res :: sys_result

definition server_accept_connection_request ::
  "accept_env \<Rightarrow> FILESHARE_SERVER \<Rightarrow> FILESHARE_CONNECTION \<times> process
     \<Rightarrow> (bool \<times> FILESHARE_CONNECTION \<times> process) outcome" where
  "server_accept_connection_request env server cp =
     (let (conn, p) = cp;
          p1 = p\<lparr>stdout := stdout p @ [''Wait for client to connect\<newline>'']\<rparr>
      in case accept_res env of
           NoFd e \<Rightarrow>
             (let conn1 = conn\<lparr>client_sock_fd := - 1\<rparr>; p2 = p1\<lparr>errno := e\<rparr>
              in if program_in_shutdown p2 then Done (False, conn1, p2)
                 else Exited EXIT_FAILURE
                   (p2\<lparr>stderr := stderr p2 @
                      [''[server_accept_connection_request] Unable to accept() connection on a socket\<newline>'']\<rparr>))
         | NewFd f \<Rightarrow>
             (let conn1 = conn\<lparr>client_sock_fd := f\<rparr>
              in case linger_res env of
                   Failure e \<Rightarrow> Exited EXIT_FAILURE
                     (p1\<lparr>errno := e, stderr := stderr p1 @
                        [''[server_init_listen_socket] Unable to disable SO_LINGER socket option'']\<rparr>)
                 | Success \<Rightarrow>
                     (case nodelay_res env of
                        Failure e \<Rightarrow> Exited EXIT_FAILURE
                          (p1\<lparr>errno := e, stderr := stderr p1 @
                             [''[server_accept_connection_request] Unable to enable TCP_NODELAY socket option'']\<rparr>)
                      | Success \<Rightarrow>
                          (case cork_res env of
                             Failure e \<Rightarrow> Exited EXIT_FAILURE
                               (p1\<lparr>errno := e, stderr := stderr p1 @
                                  [''[server_accept_connection_request] Unable to disable TCP_CORK socket option'']\<rparr>)
                           | Success \<Rightarrow>
                               Done (True, conn1, p1\<lparr>stdout := stdout p1 @ [''Client connected\<newline>'']\<rparr>)))))"

definition server_close_conn_socket :: "sys_result \<Rightarrow> FILESHARE_CONNECTION \<Rightarrow> process \<Rightarrow> process outcome" where
  "server_close_conn_socket close_res conn p =
     (case close_res of
        Failure e \<Rightarrow> Exited EXIT_FAILURE
          (p\<lparr>errno := e, stderr := stderr p @ [''[server_close_conn_socket] Unable to close() connection socket\<newline>'']\<rparr>)
      | Success \<Rightarrow> Done (p\<lparr>closed_fds := closed_fds p @ [client_sock_fd conn]\<rparr>))"

text \<open>The test at the head of both event loops.\<close>

definition accept_new_connections :: "size_t \<Rightarrow> size_t \<Rightarrow> process \<Rightarrow> bool" where
  "accept_new_connections max_conns num_connected p =
     (num_connected \<noteq> max_conns \<and> \<not> program_in_shutdown p)"

text \<open>
  What the kernel answers while one event is handled: to \<open>accept\<close> and its socket
  options, to the registration call, to \<open>close\<close>, to \<open>pread\<close> and to \<open>write\<close>.
\<close>

record event_io =
  io_accept :: accept_env
  io_ctl :: sys_result
  io_close :: sys_result
  io_read :: pread_outcome
  io_write :: write_outcome

section \<open>The server multiplexed with epoll\<close>

text \<open>
  The kernel side of the epoll instance is its interest list: the registered descriptors,
  each with the event mask and the 32-bit tag given at registration. \<open>EPOLL_CTL_ADD\<close> fails
  for a negative descriptor (\<open>EBADF\<close>) and for one already registered (\<open>EEXIST\<close>),
  \<open>EPOLL_CTL_DEL\<close> for one that is not registered (\<open>ENOENT\<close>); either may fail for
  reasons of the kernel's own.
\<close>

definition EPOLLIN :: "32 word" where
  "EPOLLIN = 0x001"

definition EPOLLOUT :: "32 word" where
  "EPOLLOUT = 0x004"

definition EPOLLHUP :: "32 word" where
  "EPOLLHUP = 0x010"

record epoll_event =
  events :: "32 word"
  data_u32 :: "32 word"

record epoll_item =
  item_fd :: int
  item_event :: epoll_event

definition epoll_ctl_add ::
  "sys_result \<Rightarrow> int \<Rightarrow> epoll_event \<Rightarrow> epoll_item list \<times> process \<Rightarrow> int \<times> epoll_item list \<times> process" where
  "epoll_ctl_add r f ev ip =
     (let (items, p) = ip
      in case r of
           Failure e \<Rightarrow> (- 1, items, p\<lparr>errno := e\<rparr>)
         | Success \<Rightarrow>
             if f < 0 then (- 1, items, p\<lparr>errno := EBADF\<rparr>)
             else if f \<in> item_fd ` set items then (- 1, items, p\<lparr>errno := EEXIST\<rparr>)
             else (0, items @ [\<lparr>item_fd = f, item_event = ev\<rparr>], p))"

definition epoll_ctl_del ::
  "sys_result \<Rightarrow> int \<Rightarrow> epoll_item list \<times> process \<Rightarrow> int \<times> epoll_item list \<times> process" where
  "epoll_ctl_del r f ip =
     (let (items, p) = ip
      in case r of
           Failure e \<Rightarrow> (- 1, items, p\<lparr>errno := e\<rparr>)
         | Success \<Rightarrow>
             if f \<notin> item_fd ` set items then (- 1, items, p\<lparr>errno := ENOENT\<rparr>)
             else (0, filter (\<lambda>x. item_fd x \<noteq> f) items, p))"

definition epoll_server_wait_for_client ::
  "sys_result \<Rightarrow> FILESHARE_SERVER \<Rightarrow> epoll_item list \<times> process \<Rightarrow> (epoll_item list \<times> process) outcome" where
  "epoll_server_wait_for_client r server ip =
     (let event = \<lparr>events = EPOLLIN, data_u32 = 0\<rparr>;
          (ret, items', p') = epoll_ctl_add r (listen_sock_fd server) event ip
      in if ret = - 1
         then Exited EXIT_FAILURE
                (p'\<lparr>stderr := stderr p' @ [''[EPOLL WAIT FOR CLIENT] Unable to call epoll_ctl()\<newline>'']\<rparr>)
         else Done (items', p'))"

definition epoll_server_stop_waiting_for_client ::
  "sys_result \<Rightarrow> FILESHARE_SERVER \<Rightarrow> epoll_item list \<times> process \<Rightarrow> (epoll_item list \<times> process) outcome" where
  "epoll_server_stop_waiting_for_client r server ip =
     (let (ret, items', p') = epoll_ctl_del r (listen_sock_fd server) ip
      in if ret = - 1
         then Exited EXIT_FAILURE
                (p'\<lparr>stderr := stderr p' @ [''[STOP WAITING FOR CLIENT] Unable to call epoll_ctl()\<newline>'']\<rparr>)
         else Done (items', p'))"

text \<open>The tag of connection \<open>conn_i\<close> is \<open>1U + conn_i\<close>, stored in 32 bits.\<close>

definition epoll_conn_wait_on_socket ::
  "sys_result \<Rightarrow> size_t \<Rightarrow> FILESHARE_CONNECTION \<Rightarrow> epoll_item list \<times> process
     \<Rightarrow> (epoll_item list \<times> process) outcome" where
  "epoll_conn_wait_on_socket r conn_i conn ip =
     (let event = \<lparr>events = EPOLLOUT OR EPOLLHUP, data_u32 = ucast (1 + conn_i)\<rparr>;
          (ret, items', p') = epoll_ctl_add r (client_sock_fd conn) event ip
      in if ret = - 1
         then Exited EXIT_FAILURE
                (p'\<lparr>stderr := stderr p' @ [''[EPOLL WAIT ON SOCKET] Unable to call epoll_ctl()\<newline>'']\<rparr>)
         else Done (items', p'))"

definition epoll_conn_stop_waiting_on_socket ::
  "sys_result \<Rightarrow> FILESHARE_CONNECTION \<Rightarrow> epoll_item list \<times> process
     \<Rightarrow> (epoll_item list \<times> process) outcome" where
  "epoll_conn_stop_waiting_on_socket r conn ip =
     (let (ret, items', p') = epoll_ctl_del r (client_sock_fd conn) ip
      in if ret = - 1
         then Exited EXIT_FAILURE
                (p'\<lparr>stderr := stderr p' @ [''[STOP WAITING ON SOCKET] Unable to call epoll_ctl()\<newline>'']\<rparr>)
         else Done (items', p'))"

text \<open>
  The variables of \<open>main\<close> that live across iterations, together with the process: the
  connection table and the two counters are common to both multiplexing servers; the
  epoll server adds the flag of the previous iteration and the interest list of its epoll
  instance.
\<close>

record server_loop =
  conns :: "FILESHARE_CONNECTION list"
  num_active_clients :: size_t
  num_connected_clients :: size_t
  proc :: process

record epoll_loop = server_loop +
  accept_new_connections_prev :: bool
  interest :: "epoll_item list"

text \<open>
  The block that ends a connection in the epoll loop, after a hangup and after a failed
  step alike: deregister, close, mark finished, one active client less.
\<close>

definition epoll_drop_connection ::
  "event_io \<Rightarrow> nat \<Rightarrow> FILESHARE_CONNECTION \<Rightarrow> epoll_loop \<Rightarrow> epoll_loop outcome" where
  "epoll_drop_connection io i conn s =
     (case epoll_conn_stop_waiting_on_socket (io_ctl io) conn (interest s, proc s) of
        Exited st p \<Rightarrow> Exited st p
      | OutOfBounds \<Rightarrow> OutOfBounds
      | Done (interest', p1) \<Rightarrow>
          (case server_close_conn_socket (io_close io) conn p1 of
             Exited st p \<Rightarrow> Exited st p
           | OutOfBounds \<Rightarrow> OutOfBounds
           | Done p2 \<Rightarrow>
               Done (s\<lparr>conns := (conns s)[i := conn\<lparr>state := TRANSFER_FINISHED\<rparr>],
                       num_active_clients := num_active_clients s - 1,
                       proc := p2, interest := interest'\<rparr>)))"

text \<open>The body of the \<open>for\<close> loop over the events returned by \<open>epoll_wait\<close>.\<close>

definition epoll_handle_event ::
  "FILESHARE_SERVER \<Rightarrow> epoll_event \<times> event_io \<Rightarrow> epoll_loop \<Rightarrow> epoll_loop outcome" where
  "epoll_handle_event server evio s =
     (let (ev, io) = evio
      in if data_u32 ev = 0 then
           (let k = unat (num_connected_clients s)
            in if length (conns s) \<le> k then OutOfBounds
               else
                 (case server_accept_connection_request (io_accept io) server (conns s ! k, proc s) of
                    Exited st p \<Rightarrow> Exited st p
                  | OutOfBounds \<Rightarrow> OutOfBounds
                  | Done (accepted, conn1, p1) \<Rightarrow>
                      (let conn2 = conn1\<lparr>state := SEND_FILE_SIZE\<rparr>
                       in case epoll_conn_wait_on_socket (io_ctl io) (num_connected_clients s) conn2
                                 (interest s, p1) of
                            Exited st p \<Rightarrow> Exited st p
                          | OutOfBounds \<Rightarrow> OutOfBounds
                          | Done (interest', p2) \<Rightarrow>
                              Done (s\<lparr>conns := (conns s)[k := conn2],
                                      num_active_clients := num_active_clients s + 1,
                                      num_connected_clients := num_connected_clients s + 1,
                                      proc := p2, interest := interest'\<rparr>))))
         else
           (let conn_i = (ucast (data_u32 ev - 1) :: size_t); i = unat conn_i
            in if length (conns s) \<le> i then OutOfBounds
               else if events ev AND EPOLLHUP \<noteq> 0 then
                 epoll_drop_connection io i (conns s ! i) s
               else if events ev AND EPOLLOUT \<noteq> 0 then
                 (case advance server (io_read io) (io_write io) (conns s ! i, proc s) of
                    Exited st p \<Rightarrow> Exited st p
                  | OutOfBounds \<Rightarrow> OutOfBounds
                  | Done (success, conn1, p1) \<Rightarrow>
                      (let s1 = s\<lparr>conns := (conns s)[i := conn1], proc := p1\<rparr>
                       in if \<not> success then epoll_drop_connection io i conn1 s1 else Done s1))
               else Done s))"

fun epoll_handle_events ::
  "FILESHARE_SERVER \<Rightarrow> (epoll_event \<times> event_io) list \<Rightarrow> epoll_loop \<Rightarrow> epoll_loop outcome" where
  "epoll_handle_events server [] s = Done s"
| "epoll_handle_events server (evio # evios) s =
     (case epoll_handle_event server evio s of
        Done s' \<Rightarrow> epoll_handle_events server evios s'
      | Exited st p \<Rightarrow> Exited st p
      | OutOfBounds \<Rightarrow> OutOfBounds)"

text \<open>
  What \<open>epoll_wait\<close> can return: one event for each of some registered descriptors, each
  carrying the tag its descriptor was registered with. Tags identify descriptors, so no
  tag comes twice.
\<close>

definition events_possible :: "epoll_item list \<Rightarrow> epoll_event list \<Rightarrow> bool" where
  "events_possible items evs =
     (distinct (map data_u32 evs) \<and>
      (\<forall>ev\<in>set evs. data_u32 ev \<in> (data_u32 \<circ> item_event) ` set items))"

datatype 'e wait_result = Ready "'e list" | WaitFailed int

text \<open>
  What happens around the process in one iteration: whether SIGINT arrives before the
  check at the head of the loop or during the wait, and what the kernel answers.
\<close>

record iter_env =
  sigint_before :: bool
  sigint_during_wait :: bool

record epoll_env = iter_env +
  ctl_listen :: sys_result
  wait_res :: "(epoll_event \<times> event_io) wait_result"

datatype 's step = Continue 's | Break 's | Exit_Process int process | Undefined_Behaviour | Not_Possible

definition step_of :: "'s outcome \<Rightarrow> 's step" where
  "step_of r = (case r of Done s \<Rightarrow> Continue s | Exited st p \<Rightarrow> Exit_Process st p
                | OutOfBounds \<Rightarrow> Undefined_Behaviour)"

text \<open>
  One iteration of \<open>while (true)\<close> in the epoll server, in two parts: from the head of
  the loop to the call of \<open>epoll_wait\<close>, and from its return to the end of the body.
\<close>

definition epoll_before_wait ::
  "size_t \<Rightarrow> FILESHARE_SERVER \<Rightarrow> epoll_env \<Rightarrow> epoll_loop \<Rightarrow> epoll_loop step" where
  "epoll_before_wait max_conns server env s =
     (let s0 = s\<lparr>proc := deliver_sigint (sigint_before env) (proc s)\<rparr>;
          accept_new = accept_new_connections max_conns (num_connected_clients s0) (proc s0)
      in if num_active_clients s0 = 0 \<and> \<not> accept_new then Break s0
         else if accept_new_connections_prev s0 \<and> \<not> accept_new
         then (case epoll_server_stop_waiting_for_client (ctl_listen env) server
                      (interest s0, proc s0) of
                 Done (items', p') \<Rightarrow>
                   Continue (s0\<lparr>proc := p', accept_new_connections_prev := False, interest := items'\<rparr>)
               | Exited st p \<Rightarrow> Exit_Process st p
               | OutOfBounds \<Rightarrow> Undefined_Behaviour)
         else Continue s0)"

definition epoll_after_wait ::
  "FILESHARE_SERVER \<Rightarrow> epoll_env \<Rightarrow> epoll_loop \<Rightarrow> epoll_loop step" where
  "epoll_after_wait server env s1 =
     (case wait_res env of
        WaitFailed e \<Rightarrow>
          Exit_Process EXIT_FAILURE
            ((proc s1)\<lparr>errno := e, stderr := stderr (proc s1) @
                [''Unable to epoll-wait for data on descriptors\<newline>'']\<rparr>)
      | Ready evios \<Rightarrow>
          if \<not> events_possible (interest s1) (map fst evios) then Not_Possible
          else step_of (epoll_handle_events server evios
                 (s1\<lparr>proc := deliver_sigint (sigint_during_wait env) (proc s1)\<rparr>)))"

definition epoll_iteration ::
  "size_t \<Rightarrow> FILESHARE_SERVER \<Rightarrow> epoll_env \<Rightarrow> epoll_loop \<Rightarrow> epoll_loop step" where
  "epoll_iteration max_conns server env s =
     (case epoll_before_wait max_conns server env s of
        Continue s1 \<Rightarrow> epoll_after_wait server env s1
      | Break s0 \<Rightarrow> Break s0
      | Exit_Process st p \<Rightarrow> Exit_Process st p
      | Undefined_Behaviour \<Rightarrow> Undefined_Behaviour
      | Not_Possible \<Rightarrow> Not_Possible)"

text \<open>
  The loop over a finite run of kernel answers, one per iteration: \<open>Continue\<close> says that
  the server is still in the loop when the answers given are used up.
\<close>

fun epoll_loop_run ::
  "size_t \<Rightarrow> FILESHARE_SERVER \<Rightarrow> epoll_env list \<Rightarrow> epoll_loop \<Rightarrow> epoll_loop step" where
  "epoll_loop_run max_conns server [] s = Continue s"
| "epoll_loop_run max_conns server (env # envs) s =
     (case epoll_iteration max_conns server env s of
        Continue s' \<Rightarrow> epoll_loop_run max_conns server envs s'
      | Break s' \<Rightarrow> Break s'
      | Exit_Process st p \<Rightarrow> Exit_Process st p
      | Undefined_Behaviour \<Rightarrow> Undefined_Behaviour
      | Not_Possible \<Rightarrow> Not_Possible)"

text \<open>
  The state in which \<open>main\<close> enters the loop: every slot empty, no client counted, the
  listening socket registered with tag 0.
\<close>

definition empty_conn :: FILESHARE_CONNECTION where
  "empty_conn = \<lparr>client_sock_fd = 0, src_file_offset = 0, state = CONNECTION_EMPTY\<rparr>"

definition epoll_loop_entry :: "size_t \<Rightarrow> FILESHARE_SERVER \<Rightarrow> process \<Rightarrow> epoll_loop" where
  "epoll_loop_entry max_conns server p =
     \<lparr>conns = replicate (unat max_conns) empty_conn,
      num_active_clients = 0, num_connected_clients = 0,
      proc = p,
      accept_new_connections_prev = True,
      interest = [\<lparr>item_fd = listen_sock_fd server,
                   item_event = \<lparr>events = EPOLLIN, data_u32 = 0\<rparr>\<rparr>]\<rparr>"

text \<open>After the loop: close the listening socket and the file, print, return.\<close>

definition server_finish ::
  "sys_result \<Rightarrow> sys_result \<Rightarrow> FILESHARE_SERVER \<Rightarrow> process \<Rightarrow> int \<times> process" where
  "server_finish close_listen close_file server p =
     (case server_close_listen_socket close_listen server p of
        Exited st p' \<Rightarrow> (st, p')
      | OutOfBounds \<Rightarrow> (EXIT_FAILURE, p)
      | Done p1 \<Rightarrow>
          (case server_close_src_file close_file server p1 of
             Exited st p' \<Rightarrow> (st, p')
           | OutOfBounds \<Rightarrow> (EXIT_FAILURE, p1)
           | Done p2 \<Rightarrow> (EXIT_SUCCESS, p2\<lparr>stdout := stdout p2 @ [''Transfer finished\<newline>'']\<rparr>)))"

section \<open>The server multiplexed with poll\<close>

definition POLLIN :: "16 word" where
  "POLLIN = 0x001"

definition POLLOUT :: "16 word" where
  "POLLOUT = 0x004"

definition POLLHUP :: "16 word" where
  "POLLHUP = 0x010"

record pollfd =
  pollfd_fd :: int
  pollfd_events :: "16 word"
  pollfd_revents :: "16 word"

text \<open>
  The four functions that fill one entry of the array given to \<open>poll\<close>: entry 0 is for the
  listening socket, entry \<open>1 + conn_i\<close> for connection \<open>conn_i\<close>. A negative descriptor
  makes \<open>poll\<close> skip the entry.
\<close>

definition poll_server_wait_for_client :: "pollfd list \<Rightarrow> FILESHARE_SERVER \<Rightarrow> pollfd list outcome" where
  "poll_server_wait_for_client fds server =
     (if length fds \<le> 0 then OutOfBounds
      else Done (fds[0 := \<lparr>pollfd_fd = listen_sock_fd server, pollfd_events = POLLIN, pollfd_revents = 0\<rparr>]))"

definition poll_server_do_not_wait_for_client :: "pollfd list \<Rightarrow> pollfd list outcome" where
  "poll_server_do_not_wait_for_client fds =
     (if length fds \<le> 0 then OutOfBounds
      else Done (fds[0 := \<lparr>pollfd_fd = - 1, pollfd_events = 0, pollfd_revents = 0\<rparr>]))"

definition poll_conn_wait_on_socket ::
  "pollfd list \<Rightarrow> size_t \<Rightarrow> FILESHARE_CONNECTION \<Rightarrow> pollfd list outcome" where
  "poll_conn_wait_on_socket fds conn_i conn =
     (let j = unat (1 + conn_i)
      in if length fds \<le> j then OutOfBounds
         else Done (fds[j := \<lparr>pollfd_fd = client_sock_fd conn, pollfd_events = POLLOUT OR POLLHUP,
                               pollfd_revents = 0\<rparr>]))"

definition poll_conn_do_not_wait_on_socket :: "pollfd list \<Rightarrow> size_t \<Rightarrow> pollfd list outcome" where
  "poll_conn_do_not_wait_on_socket fds conn_i =
     (let j = unat (1 + conn_i)
      in if length fds \<le> j then OutOfBounds
         else Done (fds[j := \<lparr>pollfd_fd = - 1, pollfd_events = 0, pollfd_revents = 0\<rparr>]))"

record poll_loop = server_loop +
  pollfds :: "pollfd list"

record poll_env = iter_env +
  poll_res :: "16 word wait_result"
  listen_io :: event_io
  conn_io :: "nat \<Rightarrow> event_io"

text \<open>A \<open>for\<close> loop whose body may leave the program.\<close>

fun for_each :: "('a \<Rightarrow> 's \<Rightarrow> 's outcome) \<Rightarrow> 'a list \<Rightarrow> 's \<Rightarrow> 's outcome" where
  "for_each body [] s = Done s"
| "for_each body (x # xs) s =
     (case body x s of
        Done s' \<Rightarrow> for_each body xs s'
      | Exited st p \<Rightarrow> Exited st p
      | OutOfBounds \<Rightarrow> OutOfBounds)"

text \<open>The body of the first \<open>for\<close> loop: arm or disarm the entry of connection \<open>i\<close>.\<close>

definition poll_arm_conn ::
  "FILESHARE_CONNECTION list \<Rightarrow> nat \<Rightarrow> pollfd list \<times> process \<Rightarrow> (pollfd list \<times> process) outcome" where
  "poll_arm_conn cs i fp =
     (let (fds, p) = fp
      in if length cs \<le> i then OutOfBounds
         else
           (case state (cs ! i) of
              CONNECTION_EMPTY \<Rightarrow>
                Exited EXIT_FAILURE (p\<lparr>stderr := stderr p @ [''Unexpected state!\<newline>'']\<rparr>)
            | SEND_FILE_SIZE \<Rightarrow>
                (case poll_conn_wait_on_socket fds (of_nat i) (cs ! i) of
                   Done fds' \<Rightarrow> Done (fds', p) | Exited st q \<Rightarrow> Exited st q | OutOfBounds \<Rightarrow> OutOfBounds)
            | SEND_DATA_BLOCK \<Rightarrow>
                (case poll_conn_wait_on_socket fds (of_nat i) (cs ! i) of
                   Done fds' \<Rightarrow> Done (fds', p) | Exited st q \<Rightarrow> Exited st q | OutOfBounds \<Rightarrow> OutOfBounds)
            | TRANSFER_FINISHED \<Rightarrow>
                (case poll_conn_do_not_wait_on_socket fds (of_nat i) of
                   Done fds' \<Rightarrow> Done (fds', p) | Exited st q \<Rightarrow> Exited st q | OutOfBounds \<Rightarrow> OutOfBounds)))"

text \<open>
  \<open>poll\<close> writes \<open>revents\<close> into the first \<open>nfds\<close> entries and leaves the others alone; an
  entry with a negative descriptor gets 0.
\<close>

definition poll_possible :: "pollfd list \<Rightarrow> 16 word list \<Rightarrow> bool" where
  "poll_possible fds revs =
     (\<forall>j<length revs. pollfd_fd (fds ! j) < 0 \<longrightarrow> revs ! j = 0)"

definition sys_poll :: "pollfd list \<Rightarrow> 16 word list \<Rightarrow> pollfd list" where
  "sys_poll fds revs =
     map (\<lambda>(pf, r). pf\<lparr>pollfd_revents := r\<rparr>) (zip fds revs) @ drop (length revs) fds"

text \<open>The first part of an iteration of the poll server, up to the call of \<open>poll\<close>.\<close>

definition poll_before_wait ::
  "size_t \<Rightarrow> FILESHARE_SERVER \<Rightarrow> poll_env \<Rightarrow> poll_loop \<Rightarrow> poll_loop step" where
  "poll_before_wait max_conns server env s =
     (let s0 = s\<lparr>proc := deliver_sigint (sigint_before env) (proc s)\<rparr>;
          accept_new = accept_new_connections max_conns (num_connected_clients s0) (proc s0)
      in if num_active_clients s0 = 0 \<and> \<not> accept_new then Break s0
         else
           (case (if accept_new then poll_server_wait_for_client (pollfds s0) server
                  else poll_server_do_not_wait_for_client (pollfds s0)) of
              Exited st p \<Rightarrow> Exit_Process st p
            | OutOfBounds \<Rightarrow> Undefined_Behaviour
            | Done fds1 \<Rightarrow>
                (case for_each (poll_arm_conn (conns s0)) [0..<unat (num_connected_clients s0)]
                        (fds1, proc s0) of
                   Exited st p \<Rightarrow> Exit_Process st p
                 | OutOfBounds \<Rightarrow> Undefined_Behaviour
                 | Done (fds2, p2) \<Rightarrow> Continue (s0\<lparr>proc := p2, pollfds := fds2\<rparr>))))"

text \<open>The new connection taken from the listening socket.\<close>

definition poll_accept :: "FILESHARE_SERVER \<Rightarrow> event_io \<Rightarrow> poll_loop \<Rightarrow> poll_loop outcome" where
  "poll_accept server io s =
     (let k = unat (num_connected_clients s)
      in if length (conns s) \<le> k then OutOfBounds
         else
           (case server_accept_connection_request (io_accept io) server (conns s ! k, proc s) of
              Exited st p \<Rightarrow> Exited st p
            | OutOfBounds \<Rightarrow> OutOfBounds
            | Done (accepted, conn1, p1) \<Rightarrow>
                Done (s\<lparr>conns := (conns s)[k := conn1\<lparr>state := SEND_FILE_SIZE\<rparr>],
                        num_active_clients := num_active_clients s + 1,
                        num_connected_clients := num_connected_clients s + 1,
                        proc := p1\<rparr>)))"

text \<open>
  The body of the second \<open>for\<close> loop. After a hangup the state is set to finished here;
  after a failed step only the socket is closed and the counter decremented, the state
  having been set by the step.
\<close>

definition poll_handle_conn ::
  "FILESHARE_SERVER \<Rightarrow> (nat \<Rightarrow> event_io) \<Rightarrow> nat \<Rightarrow> poll_loop \<Rightarrow> poll_loop outcome" where
  "poll_handle_conn server ios i s =
     (let j = unat (1 + (of_nat i :: size_t))
      in if length (pollfds s) \<le> j then OutOfBounds
         else if pollfd_revents (pollfds s ! j) AND POLLHUP \<noteq> 0 then
           (if length (conns s) \<le> i then OutOfBounds
            else
              (case server_close_conn_socket (io_close (ios i)) (conns s ! i) (proc s) of
                 Exited st p \<Rightarrow> Exited st p
               | OutOfBounds \<Rightarrow> OutOfBounds
               | Done p1 \<Rightarrow>
                   Done (s\<lparr>conns := (conns s)[i := (conns s ! i)\<lparr>state := TRANSFER_FINISHED\<rparr>],
                           num_active_clients := num_active_clients s - 1,
                           proc := p1\<rparr>)))
         else if pollfd_revents (pollfds s ! j) AND POLLOUT \<noteq> 0 then
           (if length (conns s) \<le> i then OutOfBounds
            else
              (case advance server (io_read (ios i)) (io_write (ios i)) (conns s ! i, proc s) of
                 Exited st p \<Rightarrow> Exited st p
               | OutOfBounds \<Rightarrow> OutOfBounds
               | Done (success, conn1, p1) \<Rightarrow>
                   if \<not> success then
                     (case server_close_conn_socket (io_close (ios i)) conn1 p1 of
                        Exited st p \<Rightarrow> Exited st p
                      | OutOfBounds \<Rightarrow> OutOfBounds
                      | Done p2 \<Rightarrow>
                          Done (s\<lparr>conns := (conns s)[i := conn1],
                                  num_active_clients := num_active_clients s - 1,
                                  proc := p2\<rparr>))
                   else Done (s\<lparr>conns := (conns s)[i := conn1], proc := p1\<rparr>)))
         else Done s)"

text \<open>The second part of an iteration: \<open>poll\<close> and what follows.\<close>

definition poll_after_wait :: "FILESHARE_SERVER \<Rightarrow> poll_env \<Rightarrow> poll_loop \<Rightarrow> poll_loop step" where
  "poll_after_wait server env s1 =
     (let nfds = 1 + num_connected_clients s1
      in case poll_res env of
           WaitFailed e \<Rightarrow>
             Exit_Process EXIT_FAILURE
               ((proc s1)\<lparr>errno := e, stderr := stderr (proc s1) @
                   [''Unable to poll-wait for data on descriptors\<newline>'']\<rparr>)
         | Ready revs \<Rightarrow>
             if length (pollfds s1) < unat nfds \<or> length (pollfds s1) = 0 then Undefined_Behaviour
             else if length revs \<noteq> unat nfds \<or> \<not> poll_possible (pollfds s1) revs then Not_Possible
             else
               (let s2 = s1\<lparr>proc := deliver_sigint (sigint_during_wait env) (proc s1),
                            pollfds := sys_poll (pollfds s1) revs\<rparr>
                in case (if pollfd_revents (pollfds s2 ! 0) AND POLLIN \<noteq> 0
                         then poll_accept server (listen_io env) s2 else Done s2) of
                     Exited st p \<Rightarrow> Exit_Process st p
                   | OutOfBounds \<Rightarrow> Undefined_Behaviour
                   | Done s3 \<Rightarrow>
                       step_of (for_each (poll_handle_conn server (conn_io env))
                                  [0..<unat (num_connected_clients s3)] s3)))"

definition poll_iteration ::
  "size_t \<Rightarrow> FILESHARE_SERVER \<Rightarrow> poll_env \<Rightarrow> poll_loop \<Rightarrow> poll_loop step" where
  "poll_iteration max_conns server env s =
     (case poll_before_wait max_conns server env s of
        Continue s1 \<Rightarrow> poll_after_wait server env s1
      | Break s0 \<Rightarrow> Break s0
      | Exit_Process st p \<Rightarrow> Exit_Process st p
      | Undefined_Behaviour \<Rightarrow> Undefined_Behaviour
      | Not_Possible \<Rightarrow> Not_Possible)"

fun poll_loop_run ::
  "size_t \<Rightarrow> FILESHARE_SERVER \<Rightarrow> poll_env list \<Rightarrow> poll_loop \<Rightarrow> poll_loop step" where
  "poll_loop_run max_conns server [] s = Continue s"
| "poll_loop_run max_conns server (env # envs) s =
     (case poll_iteration max_conns server env s of
        Continue s' \<Rightarrow> poll_loop_run max_conns server envs s'
      | Break s' \<Rightarrow> Break s'
      | Exit_Process st p \<Rightarrow> Exit_Process st p
      | Undefined_Behaviour \<Rightarrow> Undefined_Behaviour
      | Not_Possible \<Rightarrow> Not_Possible)"

definition poll_loop_entry :: "size_t \<Rightarrow> process \<Rightarrow> poll_loop" where
  "poll_loop_entry max_conns p =
     \<lparr>conns = replicate (unat max_conns) empty_conn,
      num_active_clients = 0, num_connected_clients = 0,
      proc = p,
      pollfds = replicate (unat (max_conns + 1))
                  \<lparr>pollfd_fd = 0, pollfd_events = 0, pollfd_revents = 0\<rparr>\<rparr>"

section \<open>Properties\<close>

subsection \<open>Machine arithmetic\<close>

lemma unat_of_nat_64: "a < 2 ^ 64 \<Longrightarrow> unat (of_nat a :: 64 word) = a"
  by (simp add: unat_of_nat)

lemma of_nat_eq_64: "a < 2 ^ 64 \<Longrightarrow> b < 2 ^ 64 \<Longrightarrow> ((of_nat a :: 64 word) = of_nat b) = (a = b)"
  by (metis unat_of_nat_64)

lemma unat_add_of_nat_64:
  assumes "unat w + n < 2 ^ 64"
  shows "unat (w + of_nat n :: 64 word) = unat w + n"
proof -
  have n: "unat (of_nat n :: 64 word) = n"
    using assms by (simp add: unat_of_nat_64)
  have "unat w + unat (of_nat n :: 64 word) < 2 ^ LENGTH(64)"
    using assms n by simp
  then have "unat (w + of_nat n) = unat w + unat (of_nat n :: 64 word)"
    by (simp only: unat_add_lem)
  then show ?thesis using n by simp
qed

lemma unat_minus1_64: "unat (- 1 :: 64 word) = 2 ^ 64 - 1"
  by (simp add: unsigned_minus_1_eq_mask mask_eq_exp_minus_1)

lemma of_nat_ne_minus1: "a \<le> 1024 \<Longrightarrow> (of_nat a :: 64 word) \<noteq> - 1"
proof
  assume a: "a \<le> 1024" and e: "(of_nat a :: 64 word) = - 1"
  have "unat (of_nat a :: 64 word) = a" using a by (simp add: unat_of_nat_64)
  then show False using a e by (simp add: unat_minus1_64)
qed

lemma of_nat_eq_0_small: "a \<le> 1024 \<Longrightarrow> ((of_nat a :: 64 word) = 0) = (a = 0)"
  using of_nat_eq_64 [of a 0] by simp

lemma size_step:
  assumes "server_send_file_size server wr (conn, p) = (ok, c1, p1)"
  shows "src_file p1 = src_file p"
    and "ok \<Longrightarrow> stderr p1 = stderr p"
    and "ok \<Longrightarrow> (c1 = conn) \<or> (c1 = conn\<lparr>src_file_offset := 0, state := SEND_DATA_BLOCK\<rparr>)"
    and "\<not> ok \<Longrightarrow> stderr p1 \<noteq> stderr p \<and> c1 = conn\<lparr>state := TRANSFER_FINISHED\<rparr>"
  using assms
  by (auto simp: server_send_file_size_def sys_write_def Let_def split: prod.splits if_splits write_outcome.splits)

lemma block_step:
  assumes run: "server_send_file_block server rd wr (conn, p) = (ok, c1, p1)"
    and sz: "src_file_size server = of_nat (length (src_file p))"
    and len: "length (src_file p) < 2 ^ 64"
    and off: "unat (src_file_offset conn) \<le> length (src_file p)"
  shows "src_file p1 = src_file p \<and>
         unat (src_file_offset c1) \<le> length (src_file p) \<and>
         (ok \<longrightarrow> stderr p1 = stderr p \<and> state c1 = state conn \<and>
                unat (src_file_offset conn) < unat (src_file_offset c1)) \<and>
         (\<not> ok \<longrightarrow> state c1 = TRANSFER_FINISHED) \<and>
         (\<not> ok \<longrightarrow> stderr p1 = stderr p \<longrightarrow> src_file_offset c1 = src_file_size server)"
proof -
  define data where "data = take TRANSFER_BLOCK_SIZE (drop (unat (src_file_offset conn)) (src_file p))"
  have L: "length data \<le> 1024" "unat (src_file_offset conn) + length data \<le> length (src_file p)"
    using off by (auto simp: data_def TRANSFER_BLOCK_SIZE_def)
  have nm: "(of_nat (length data) :: 64 word) \<noteq> - 1"
    using L by (simp add: of_nat_ne_minus1)
  show ?thesis
  proof (cases rd)
    case (ReadErr e)
    then have "ok = False \<and> c1 = conn\<lparr>state := TRANSFER_FINISHED\<rparr> \<and>
               p1 = p\<lparr>errno := e, stderr := stderr p @ [''Unable to read data from file\<newline>'']\<rparr>"
      using run by (simp add: server_send_file_block_def sys_pread_def)
    then show ?thesis using off by simp
  next
    case ReadOk
    then have rd: "sys_pread rd TRANSFER_BLOCK_SIZE (src_file_offset conn) p = (of_nat (length data), data, p)"
      by (simp add: sys_pread_def data_def Let_def)
    show ?thesis
    proof (cases "length data = 0 \<and> src_file_offset conn \<noteq> src_file_size server")
      case True
      then have "ok = False \<and> c1 = conn\<lparr>state := TRANSFER_FINISHED\<rparr> \<and>
               p1 = p\<lparr>stderr := stderr p @ [''Unable to read data from file\<newline>'']\<rparr>"
        using run rd by (simp add: server_send_file_block_def)
      then show ?thesis using off by simp
    next
      case False
      then have go: "\<not> (of_nat (length data) = (- 1 :: 64 word) \<or>
                     (of_nat (length data) = (0 :: 64 word) \<and> src_file_offset conn \<noteq> src_file_size server))"
        using nm L by (auto simp: of_nat_eq_0_small)
      show ?thesis
      proof (cases wr)
        case (WriteErr e)
        then have "ok = False \<and> c1 = conn\<lparr>state := TRANSFER_FINISHED\<rparr> \<and>
               p1 = p\<lparr>errno := e, stderr := stderr p @ [''Unable to send data block to client\<newline>'']\<rparr>"
          using run rd go by (simp add: server_send_file_block_def sys_write_def split: if_splits)
        then show ?thesis using off by simp
      next
        case (WriteOk n)
        then have wr: "sys_write wr (client_sock_fd conn) data p =
            (of_nat (length (take n data)), p\<lparr>sock_log := sock_log p @ [(client_sock_fd conn, take n data)]\<rparr>)"
          by (simp add: sys_write_def)
        show ?thesis
        proof (cases "n < length data")
          case True
          then have "(of_nat (length (take n data)) :: 64 word) \<noteq> of_nat (length data)"
            using L by (simp add: of_nat_eq_64)
          then have "ok = False \<and> c1 = conn\<lparr>state := TRANSFER_FINISHED\<rparr> \<and>
               p1 = p\<lparr>sock_log := sock_log p @ [(client_sock_fd conn, take n data)],
                      stderr := stderr p @ [''Unable to send data block to client\<newline>'']\<rparr>"
            using run rd go wr by (simp add: server_send_file_block_def split: if_splits)
          then show ?thesis using off by simp
        next
          case False
          then have full: "take n data = data" by simp
          have newoff: "unat (src_file_offset conn + of_nat (length data)) = unat (src_file_offset conn) + length data"
            using L len by (intro unat_add_of_nat_64) simp
          show ?thesis
          proof (cases "src_file_offset conn + of_nat (length data) = src_file_size server")
            case True
            then have "ok = False \<and>
                 c1 = conn\<lparr>src_file_offset := src_file_offset conn + of_nat (length data), state := TRANSFER_FINISHED\<rparr> \<and>
                 p1 = p\<lparr>sock_log := sock_log p @ [(client_sock_fd conn, data)]\<rparr>"
              using run rd go wr nm full by (simp add: server_send_file_block_def Let_def split: if_splits)
            then show ?thesis using L newoff True by simp
          next
            case ne: False
            then have r: "ok = True \<and>
                 c1 = conn\<lparr>src_file_offset := src_file_offset conn + of_nat (length data)\<rparr> \<and>
                 p1 = p\<lparr>sock_log := sock_log p @ [(client_sock_fd conn, data)]\<rparr>"
              using run rd go wr nm full by (simp add: server_send_file_block_def Let_def split: if_splits)
            have "length data \<noteq> 0"
            proof
              assume "length data = 0"
              then show False using ne \<open>\<not> (length data = 0 \<and> src_file_offset conn \<noteq> src_file_size server)\<close>
                by simp
            qed
            then show ?thesis using L newoff r by simp
          qed
        qed
      qed
    qed
  qed
qed

subsection \<open>Blocks of a file\<close>









subsection \<open>A transfer in which nothing fails\<close>


lemma block_clean_last:
  assumes sz: "src_file_size server = of_nat (length (src_file p))"
    and len: "length (src_file p) < 2 ^ 64"
    and off: "unat (src_file_offset conn) \<le> length (src_file p)"
    and last: "\<not> unat (src_file_offset conn) + TRANSFER_BLOCK_SIZE < length (src_file p)"
  shows "server_send_file_block server ReadOk (WriteOk TRANSFER_BLOCK_SIZE) (conn, p) =
         (False, conn\<lparr>src_file_offset := src_file_size server, state := TRANSFER_FINISHED\<rparr>,
          p\<lparr>sock_log := sock_log p @
             [(client_sock_fd conn, take TRANSFER_BLOCK_SIZE (drop (unat (src_file_offset conn)) (src_file p)))]\<rparr>)"
proof -
  let ?data = "take TRANSFER_BLOCK_SIZE (drop (unat (src_file_offset conn)) (src_file p))"
  have L: "length ?data = length (src_file p) - unat (src_file_offset conn)" "length ?data \<le> 1024"
    using last by (simp_all add: TRANSFER_BLOCK_SIZE_def)
  have "unat (src_file_offset conn + of_nat (length ?data)) = unat (src_file_offset conn) + length ?data"
    using off len L by (intro unat_add_of_nat_64) simp
  then have "unat (src_file_offset conn + of_nat (length ?data)) = unat (src_file_size server)"
    using off len sz L by (simp add: unat_of_nat_64)
  then have e: "src_file_offset conn + of_nat (length ?data) = src_file_size server"
    by (simp only: word_unat_eq_iff)
  have z: "(of_nat (length ?data) :: 64 word) = 0 \<Longrightarrow> src_file_offset conn = src_file_size server"
    using e by simp
  have nm: "(of_nat (length ?data) :: 64 word) \<noteq> - 1" using L by (simp add: of_nat_ne_minus1)
  show ?thesis
    using e z nm by (auto simp add: server_send_file_block_def sys_pread_def sys_write_def Let_def)
qed



lemma mem_bytes_length: "length (mem_bytes w) = 8"
  by (simp add: mem_bytes_def)




subsection \<open>The size on the wire\<close>











subsection \<open>The client\<close>






subsection \<open>Offsets of a connection\<close>

lemma offsets_observed_inv:
  "src_file_size server = of_nat (length (src_file p)) \<Longrightarrow> length (src_file p) < 2 ^ 64 \<Longrightarrow>
   (state conn = SEND_DATA_BLOCK \<longrightarrow> unat (src_file_offset conn) \<le> length (src_file p)) \<Longrightarrow>
   sorted_wrt (<) (map unat (offsets_observed server ios (conn, p))) \<and>
   (\<forall>x\<in>set (offsets_observed server ios (conn, p)).
      unat x \<le> length (src_file p) \<and>
      (state conn = SEND_DATA_BLOCK \<longrightarrow> unat (src_file_offset conn) \<le> unat x))"
proof (induction ios arbitrary: conn p)
  case Nil
  then show ?case by simp
next
  case (Cons io ios)
  obtain rd wr where io: "io = (rd, wr)" by (cases io)
  show ?case
  proof (cases "state conn")
    case CONNECTION_EMPTY
    then show ?thesis by (simp add: io advance_def)
  next
    case TRANSFER_FINISHED
    then show ?thesis by (simp add: io advance_def)
  next
    case SEND_FILE_SIZE
    obtain ok c1 p1 where r: "server_send_file_size server wr (conn, p) = (ok, c1, p1)"
      by (cases "server_send_file_size server wr (conn, p)") auto
    note s = size_step [OF r]
    show ?thesis
    proof (cases ok)
      case False
      then show ?thesis using SEND_FILE_SIZE r by (simp add: io advance_def)
    next
      case True
      have "state c1 = SEND_DATA_BLOCK \<longrightarrow> unat (src_file_offset c1) \<le> length (src_file p1)"
        using s(3) [OF True] SEND_FILE_SIZE by auto
      from Cons.IH [of p1 c1, OF _ _ this]
      have "sorted_wrt (<) (map unat (offsets_observed server ios (c1, p1))) \<and>
            (\<forall>x\<in>set (offsets_observed server ios (c1, p1)). unat x \<le> length (src_file p1))"
        using Cons.prems s(1) by simp
      then show ?thesis using SEND_FILE_SIZE r True s(1) by (simp add: io advance_def)
    qed
  next
    case SEND_DATA_BLOCK
    obtain ok c1 p1 where r: "server_send_file_block server rd wr (conn, p) = (ok, c1, p1)"
      by (cases "server_send_file_block server rd wr (conn, p)") auto
    have off: "unat (src_file_offset conn) \<le> length (src_file p)"
      using Cons.prems SEND_DATA_BLOCK by simp
    note b = block_step [OF r Cons.prems(1) Cons.prems(2) off]
    show ?thesis
    proof (cases ok)
      case False
      then show ?thesis using SEND_DATA_BLOCK r off by (simp add: io advance_def)
    next
      case True
      have st: "state c1 = SEND_DATA_BLOCK" and lt: "unat (src_file_offset conn) < unat (src_file_offset c1)"
        and sf: "src_file p1 = src_file p" and le: "unat (src_file_offset c1) \<le> length (src_file p)"
        using b True SEND_DATA_BLOCK by simp_all
      have "state c1 = SEND_DATA_BLOCK \<longrightarrow> unat (src_file_offset c1) \<le> length (src_file p1)"
        using le sf by simp
      from Cons.IH [of p1 c1, OF _ _ this]
      have ih: "sorted_wrt (<) (map unat (offsets_observed server ios (c1, p1)))"
           "\<forall>x\<in>set (offsets_observed server ios (c1, p1)).
               unat x \<le> length (src_file p) \<and> unat (src_file_offset c1) \<le> unat x"
        using Cons.prems sf st by simp_all
      have "offsets_observed server (io # ios) (conn, p) =
              src_file_offset conn # offsets_observed server ios (c1, p1)"
        using SEND_DATA_BLOCK r True by (simp add: io advance_def)
      then show ?thesis using ih lt off by fastforce
    qed
  qed
qed

lemma serve_conn_final:
  "serve_conn server ios (conn, p) = Done (conn', p') \<Longrightarrow>
   src_file_size server = of_nat (length (src_file p)) \<Longrightarrow> length (src_file p) < 2 ^ 64 \<Longrightarrow>
   (state conn = SEND_DATA_BLOCK \<longrightarrow> unat (src_file_offset conn) \<le> length (src_file p)) \<Longrightarrow>
   state conn \<noteq> TRANSFER_FINISHED \<Longrightarrow> state conn' = TRANSFER_FINISHED \<Longrightarrow>
   stderr p' = stderr p \<Longrightarrow> src_file_offset conn' = src_file_size server"
proof (induction ios arbitrary: conn p)
  case Nil
  then show ?case by simp
next
  case (Cons io ios)
  obtain rd wr where io: "io = (rd, wr)" by (cases io)
  show ?case
  proof (cases "state conn")
    case CONNECTION_EMPTY
    then show ?thesis using Cons.prems by (simp add: io advance_def)
  next
    case TRANSFER_FINISHED
    then show ?thesis using Cons.prems by simp
  next
    case SEND_FILE_SIZE
    obtain ok c1 p1 where r: "server_send_file_size server wr (conn, p) = (ok, c1, p1)"
      by (cases "server_send_file_size server wr (conn, p)") auto
    note s = size_step [OF r]
    show ?thesis
    proof (cases ok)
      case False
      then have "conn' = c1" "p' = p1" using Cons.prems(1) SEND_FILE_SIZE r by (simp_all add: io advance_def)
      then show ?thesis using s(4) [OF False] Cons.prems by simp
    next
      case True
      have run: "serve_conn server ios (c1, p1) = Done (conn', p')"
        using Cons.prems(1) SEND_FILE_SIZE r True by (simp add: io advance_def)
      have c1: "c1 = conn \<or> c1 = conn\<lparr>src_file_offset := 0, state := SEND_DATA_BLOCK\<rparr>"
        using s(3) [OF True] .
      have a: "state c1 = SEND_DATA_BLOCK \<longrightarrow> unat (src_file_offset c1) \<le> length (src_file p1)"
        using c1 SEND_FILE_SIZE by auto
      have n: "state c1 \<noteq> TRANSFER_FINISHED" using c1 SEND_FILE_SIZE by auto
      show ?thesis
        using Cons.IH [OF run _ _ a n] Cons.prems s(1) s(2) [OF True] by simp
    qed
  next
    case SEND_DATA_BLOCK
    obtain ok c1 p1 where r: "server_send_file_block server rd wr (conn, p) = (ok, c1, p1)"
      by (cases "server_send_file_block server rd wr (conn, p)") auto
    have off: "unat (src_file_offset conn) \<le> length (src_file p)"
      using Cons.prems SEND_DATA_BLOCK by simp
    note b = block_step [OF r Cons.prems(2) Cons.prems(3) off]
    show ?thesis
    proof (cases ok)
      case False
      then have "conn' = c1" "p' = p1" using Cons.prems(1) SEND_DATA_BLOCK r by (simp_all add: io advance_def)
      then show ?thesis using b False Cons.prems by simp
    next
      case True
      have run: "serve_conn server ios (c1, p1) = Done (conn', p')"
        using Cons.prems(1) SEND_DATA_BLOCK r True by (simp add: io advance_def)
      have a: "state c1 = SEND_DATA_BLOCK \<longrightarrow> unat (src_file_offset c1) \<le> length (src_file p1)"
        using b by simp
      have n: "state c1 \<noteq> TRANSFER_FINISHED" using b True SEND_DATA_BLOCK by simp
      show ?thesis
        using Cons.IH [OF run _ _ a n] Cons.prems b True by simp
    qed
  qed
qed


subsection \<open>The claims about the protocol\<close>

lemmas example_defs = example_server_def example_process_def example_conn_def
lemmas step_defs = advance_def server_send_file_size_def server_send_file_block_def
  sys_write_def sys_pread_def mem_bytes_length TRANSFER_BLOCK_SIZE_def Let_def





text \<open>
  Claim C9: whenever the dispatch on a writable connection returns, its result is false
  exactly if the connection is then in \<open>TRANSFER_FINISHED\<close>. In particular the step that
  writes the last block, so that the offset reaches the file size, sets
  \<open>TRANSFER_FINISHED\<close> and returns false, the result a failed step gives.
\<close>

theorem advance_false_iff_finished:
  "(advance server rd wr (conn, p) = Done (ok, conn', p') \<longrightarrow>
      (\<not> ok) = (state conn' = TRANSFER_FINISHED)) \<and>
   (state conn = SEND_DATA_BLOCK \<and>
    src_file_size server = of_nat (length (src_file p)) \<and> length (src_file p) < 2 ^ 64 \<and>
    unat (src_file_offset conn) \<le> length (src_file p) \<and>
    length (src_file p) \<le> unat (src_file_offset conn) + TRANSFER_BLOCK_SIZE \<longrightarrow>
      advance server ReadOk (WriteOk TRANSFER_BLOCK_SIZE) (conn, p) =
        Done (False, conn\<lparr>src_file_offset := src_file_size server, state := TRANSFER_FINISHED\<rparr>,
              p\<lparr>sock_log := sock_log p @
                 [(client_sock_fd conn, drop (unat (src_file_offset conn)) (src_file p))]\<rparr>))"
proof (intro conjI impI)
  assume a: "advance server rd wr (conn, p) = Done (ok, conn', p')"
  show "(\<not> ok) = (state conn' = TRANSFER_FINISHED)"
  proof (cases "state conn")
    case CONNECTION_EMPTY
    then show ?thesis using a by (simp add: advance_def)
  next
    case SEND_FILE_SIZE
    then have "server_send_file_size server wr (conn, p) = (ok, conn', p')"
      using a by (simp add: advance_def)
    from size_step(3,4) [OF this] show ?thesis
      using SEND_FILE_SIZE by (cases ok) auto
  next
    case SEND_DATA_BLOCK
    then have "server_send_file_block server rd wr (conn, p) = (ok, conn', p')"
      using a by (simp add: advance_def)
    then show ?thesis using SEND_DATA_BLOCK
      by (auto simp: server_send_file_block_def Let_def split: prod.splits if_splits)
  next
    case TRANSFER_FINISHED
    then show ?thesis using a by (auto simp: advance_def)
  qed
next
  assume h: "state conn = SEND_DATA_BLOCK \<and>
    src_file_size server = of_nat (length (src_file p)) \<and> length (src_file p) < 2 ^ 64 \<and>
    unat (src_file_offset conn) \<le> length (src_file p) \<and>
    length (src_file p) \<le> unat (src_file_offset conn) + TRANSFER_BLOCK_SIZE"
  then have l: "\<not> unat (src_file_offset conn) + TRANSFER_BLOCK_SIZE < length (src_file p)" by simp
  have "take TRANSFER_BLOCK_SIZE (drop (unat (src_file_offset conn)) (src_file p)) =
        drop (unat (src_file_offset conn)) (src_file p)"
    using h by auto
  then show "advance server ReadOk (WriteOk TRANSFER_BLOCK_SIZE) (conn, p) =
        Done (False, conn\<lparr>src_file_offset := src_file_size server, state := TRANSFER_FINISHED\<rparr>,
              p\<lparr>sock_log := sock_log p @
                 [(client_sock_fd conn, drop (unat (src_file_offset conn)) (src_file p))]\<rparr>)"
    using block_clean_last [of server p conn] h l by (simp add: advance_def)
qed

theorem advance_false_iff_finished_witness:
  "advance example_server ReadOk (WriteErr 32) (example_conn, example_process) =
     Done (False, example_conn\<lparr>state := TRANSFER_FINISHED\<rparr>,
           example_process\<lparr>errno := 32, stderr := [''Unable to send file size to client\<newline>'']\<rparr>) \<and>
   ((\<not> False) = (state (example_conn\<lparr>state := TRANSFER_FINISHED\<rparr>) = TRANSFER_FINISHED)) \<and>
   advance example_server ReadOk (WriteOk TRANSFER_BLOCK_SIZE)
       (example_conn\<lparr>src_file_offset := 1024, state := SEND_DATA_BLOCK\<rparr>, example_process) =
     Done (False, example_conn\<lparr>src_file_offset := 1030, state := TRANSFER_FINISHED\<rparr>,
           example_process\<lparr>sock_log := [(5, replicate 6 7)]\<rparr>)"
proof -
  let ?c = "example_conn\<lparr>src_file_offset := 1024, state := SEND_DATA_BLOCK\<rparr>"
  have e1: "advance example_server ReadOk (WriteErr 32) (example_conn, example_process) =
     Done (False, example_conn\<lparr>state := TRANSFER_FINISHED\<rparr>,
           example_process\<lparr>errno := 32, stderr := [''Unable to send file size to client\<newline>'']\<rparr>)"
    by (simp add: example_defs step_defs EAGAIN_def)
  have e2: "state ?c = SEND_DATA_BLOCK \<and>
    src_file_size example_server = of_nat (length (src_file example_process)) \<and>
    length (src_file example_process) < 2 ^ 64 \<and>
    unat (src_file_offset ?c) \<le> length (src_file example_process) \<and>
    length (src_file example_process) \<le> unat (src_file_offset ?c) + TRANSFER_BLOCK_SIZE"
    by (simp add: example_defs TRANSFER_BLOCK_SIZE_def)
  have f1: "(\<not> False) = (state (example_conn\<lparr>state := TRANSFER_FINISHED\<rparr>) = TRANSFER_FINISHED)"
    using advance_false_iff_finished [THEN conjunct1, rule_format, OF e1] .
  have f2: "advance example_server ReadOk (WriteOk TRANSFER_BLOCK_SIZE) (?c, example_process) =
        Done (False, ?c\<lparr>src_file_offset := src_file_size example_server, state := TRANSFER_FINISHED\<rparr>,
              example_process\<lparr>sock_log := sock_log example_process @
                 [(client_sock_fd ?c, drop (unat (src_file_offset ?c)) (src_file example_process))]\<rparr>)"
    using advance_false_iff_finished [THEN conjunct2, rule_format, OF e2] .
  have f3: "advance example_server ReadOk (WriteOk TRANSFER_BLOCK_SIZE) (?c, example_process) =
     Done (False, example_conn\<lparr>src_file_offset := 1030, state := TRANSFER_FINISHED\<rparr>,
           example_process\<lparr>sock_log := [(5, replicate 6 7)]\<rparr>)"
    unfolding f2 by (simp add: example_defs)
  show ?thesis using e1 f1 f3 by blast
qed

text \<open>
  Claim C3: from its admission on and whatever the kernel answers, the offsets at which a
  connection is seen in \<open>SEND_DATA_BLOCK\<close> are strictly increasing and never exceed the
  file size; and if the connection ends in \<open>TRANSFER_FINISHED\<close> with nothing reported on
  \<open>stderr\<close>, that is without a failed read or write, its offset is the file size.
\<close>

theorem offsets_strictly_increasing:
  assumes sz: "src_file_size server = of_nat (length (src_file p))"
    and len: "length (src_file p) < 2 ^ 64"
    and st: "state conn = SEND_FILE_SIZE"
  shows "sorted_wrt (<) (map unat (offsets_observed server ios (conn, p))) \<and>
         (\<forall>x\<in>set (offsets_observed server ios (conn, p)). unat x \<le> unat (src_file_size server)) \<and>
         (\<forall>conn' p'. serve_conn server ios (conn, p) = Done (conn', p') \<and>
                    state conn' = TRANSFER_FINISHED \<and> stderr p' = stderr p
                    \<longrightarrow> src_file_offset conn' = src_file_size server)"
proof -
  have a: "state conn = SEND_DATA_BLOCK \<longrightarrow> unat (src_file_offset conn) \<le> length (src_file p)"
    using st by simp
  have u: "unat (src_file_size server) = length (src_file p)"
    using sz len by (simp add: unat_of_nat_64)
  have n: "state conn \<noteq> TRANSFER_FINISHED" using st by simp
  show ?thesis
    using offsets_observed_inv [OF sz len a, of ios]
      serve_conn_final [OF _ sz len a n, of ios]
    by (simp add: u)
qed

theorem offsets_strictly_increasing_witness:
  "src_file_size example_server = of_nat (length (src_file example_process)) \<and>
   length (src_file example_process) < 2 ^ 64 \<and>
   state example_conn = SEND_FILE_SIZE \<and>
   offsets_observed example_server [clean_io, clean_io, clean_io] (example_conn, example_process) = [0, 1024] \<and>
   sorted_wrt (<) (map unat (offsets_observed example_server [clean_io, clean_io, clean_io]
                      (example_conn, example_process))) \<and>
   serve_conn example_server [clean_io, clean_io, clean_io] (example_conn, example_process) =
     Done (example_conn\<lparr>src_file_offset := 1030, state := TRANSFER_FINISHED\<rparr>,
           example_process\<lparr>sock_log :=
              [(5, [0, 0, 0, 0, 0, 0, 4, 6]), (5, replicate 1024 7), (5, replicate 6 7)]\<rparr>) \<and>
   src_file_offset (example_conn\<lparr>src_file_offset := 1030, state := TRANSFER_FINISHED\<rparr>) =
     src_file_size example_server"
proof -
  let ?ios = "[clean_io, clean_io, clean_io]"
  have h1: "src_file_size example_server = of_nat (length (src_file example_process))"
    by (simp add: example_defs)
  have h2: "length (src_file example_process) < 2 ^ 64"
    by (simp add: example_defs)
  have h3: "state example_conn = SEND_FILE_SIZE"
    by (simp add: example_defs)
  have e1: "offsets_observed example_server ?ios (example_conn, example_process) = [0, 1024]"
    by (simp add: example_defs clean_io_def step_defs)
  have e2: "serve_conn example_server ?ios (example_conn, example_process) =
     Done (example_conn\<lparr>src_file_offset := 1030, state := TRANSFER_FINISHED\<rparr>,
           example_process\<lparr>sock_log :=
              [(5, [0, 0, 0, 0, 0, 0, 4, 6]), (5, replicate 1024 7), (5, replicate 6 7)]\<rparr>)"
    by (simp add: example_defs clean_io_def step_defs upt_rec mem_bytes_def htobe64_def mem_value_def)
  note t = offsets_strictly_increasing [OF h1 h2 h3, of ?ios]
  have f1: "sorted_wrt (<) (map unat (offsets_observed example_server ?ios (example_conn, example_process)))"
    using t by blast
  have f2: "src_file_offset (example_conn\<lparr>src_file_offset := 1030, state := TRANSFER_FINISHED\<rparr>) =
     src_file_size example_server"
    using t e2 by (simp add: example_defs)
  show ?thesis using h1 h2 h3 e1 e2 f1 f2 by blast
qed



end
